theory Spec2Isabelle
  imports Complex_Main "HOL-Library.Word"
begin

section \<open>JavaScript values used by ConversationService\<close>

text \<open>
  A JavaScript string is a sequence of UTF-16 code units and \<^verbatim>\<open>s.length\<close> is the number
  of code units, so a string is a list of 16-bit words. String literals of the source are
  written \<open>js ''...''\<close>.
\<close>

type_synonym jsstring = "16 word list"

definition js :: "string \<Rightarrow> jsstring" where
  "js s = map of_char s"

text \<open>
  The numbers of the service (token counts, limits, timestamps in milliseconds) are
  modelled as integers with exact arithmetic. The source computes in IEEE doubles, and the
  two agree on the inputs that \<open>exactInputs\<close> below describes: \<^verbatim>\<open>text.length / 4\<close>
  is exact, \<^verbatim>\<open>Math.floor(n * 0.8)\<close> is the floor of the exact product for a limit of
  magnitude at most \<open>2 ^ 50\<close> (from \<open>3 * 2 ^ 49\<close> on the double product is rounded across
  an integer), and the sums of non-negative counts below \<open>2 ^ 53\<close> are exact up to the
  comparison with the budget. The theorem on the budget carries \<open>exactInputs\<close> as a
  hypothesis; the other theorems hold whatever the budget is, or evaluate concrete inputs
  inside that range. Non-integral numbers, infinities and a
  \<^verbatim>\<open>NaN\<close> passed in by a caller are outside the model; the \<^verbatim>\<open>NaN\<close> that the
  service itself computes from a non-numeric limit is \<open>None\<close>.

  A property read can also yield a function or another object; such a value is truthy and
  converts to \<^verbatim>\<open>NaN\<close> in arithmetic.
\<close>

datatype jsval = JSNumber int | JSObject

fun truthy :: "jsval \<Rightarrow> bool" where
  "truthy (JSNumber n) = (n \<noteq> 0)"
| "truthy JSObject = True"

section \<open>Data model\<close>

record StoredMessage =
  msg_id :: jsstring
  msg_text :: jsstring
  isUser :: bool
  timestamp :: int
  tokens :: "int option"

record Conversation =
  conv_id :: jsstring
  title :: jsstring
  messages :: "StoredMessage list"
  providerId :: jsstring
  modelName :: jsstring
  systemPrompt :: "jsstring option"
  createdAt :: int
  updatedAt :: int

record SystemPrompt =
  prompt_id :: jsstring
  prompt_name :: jsstring
  prompt :: jsstring
  isDefault :: bool
  prompt_providerId :: "jsstring option"
  prompt_modelName :: "jsstring option"

section \<open>Static tables\<close>

definition MODEL_CONTEXT_LIMITS :: "(jsstring \<times> int) list" where
  "MODEL_CONTEXT_LIMITS =
    [(js ''gpt-4o'', 128000),
     (js ''gpt-4o-mini'', 128000),
     (js ''gpt-4-turbo'', 128000),
     (js ''gpt-4'', 8192),
     (js ''gpt-3.5-turbo'', 4096),
     (js ''claude-3-5-sonnet-20241022'', 200000),
     (js ''claude-3-5-haiku-20241022'', 200000),
     (js ''claude-3-opus-20240229'', 200000),
     (js ''claude-3-sonnet-20240229'', 200000),
     (js ''claude-3-haiku-20240307'', 200000),
     (js ''gemini-1.5-pro-latest'', 2000000),
     (js ''gemini-1.5-flash-latest'', 1000000),
     (js ''gemini-pro'', 32000),
     (js ''gemini-pro-vision'', 16000),
     (js ''llama-3.1-405b-reasoning'', 32768),
     (js ''llama-3.1-70b-versatile'', 32768),
     (js ''llama-3.1-8b-instant'', 8192),
     (js ''mixtral-8x7b-32768'', 32768),
     (js ''gemma2-9b-it'', 8192)]"

text \<open>
  \<^verbatim>\<open>MODEL_CONTEXT_LIMITS\<close> is an object literal, so its prototype is
  \<^verbatim>\<open>Object.prototype\<close>, and the read \<^verbatim>\<open>MODEL_CONTEXT_LIMITS[modelName]\<close>
  walks the prototype chain: a name that is no key of the literal but a property of
  \<^verbatim>\<open>Object.prototype\<close> yields that property (a function, or for
  \<^verbatim>\<open>__proto__\<close> the prototype object itself). These are the property names
  ECMA-262 gives \<^verbatim>\<open>Object.prototype\<close>.
\<close>

definition Object_prototype :: "jsstring list" where
  "Object_prototype =
    [js ''constructor'', js ''hasOwnProperty'', js ''isPrototypeOf'',
     js ''propertyIsEnumerable'', js ''toLocaleString'', js ''toString'', js ''valueOf'',
     js ''__proto__'', js ''__defineGetter__'', js ''__defineSetter__'',
     js ''__lookupGetter__'', js ''__lookupSetter__'']"

definition getProperty :: "(jsstring \<times> int) list \<Rightarrow> jsstring \<Rightarrow> jsval option" where
  "getProperty obj key =
    (case map_of obj key of
       Some n \<Rightarrow> Some (JSNumber n)
     | None \<Rightarrow> if key \<in> set Object_prototype then Some JSObject else None)"

section \<open>Token estimator and capacity lookup\<close>

definition estimateTokens :: "jsstring \<Rightarrow> int" where
  "estimateTokens s = \<lceil>real (length s) / 4\<rceil>"

definition getContextLimit :: "jsstring \<Rightarrow> jsval" where
  "getContextLimit name =
    (case getProperty MODEL_CONTEXT_LIMITS name of
       Some v \<Rightarrow> if truthy v then v else JSNumber 4096
     | None \<Rightarrow> JSNumber 4096)"

section \<open>Context trimmer\<close>

text \<open>The local constants of \<^verbatim>\<open>trimContext\<close>, one definition each.\<close>

definition contextLimit :: "int option \<Rightarrow> jsstring \<Rightarrow> jsval" where
  "contextLimit maxTokens name =
    (case maxTokens of
       Some n \<Rightarrow> if n \<noteq> 0 then JSNumber n else getContextLimit name
     | None \<Rightarrow> getContextLimit name)"

definition systemTokens :: "jsstring option \<Rightarrow> int" where
  "systemTokens sp =
    (case sp of
       Some s \<Rightarrow> if s \<noteq> [] then estimateTokens s else 0
     | None \<Rightarrow> 0)"

fun availableTokens :: "jsval \<Rightarrow> int \<Rightarrow> int option" where
  "availableTokens (JSNumber n) sys = Some (\<lfloor>real_of_int n * 0.8\<rfloor> - sys)"
| "availableTokens JSObject sys = None"

definition messageTokens :: "StoredMessage \<Rightarrow> int" where
  "messageTokens m =
    (case tokens m of
       Some n \<Rightarrow> if n \<noteq> 0 then n else estimateTokens (msg_text m)
     | None \<Rightarrow> estimateTokens (msg_text m))"

text \<open>\<^verbatim>\<open>x <= availableTokens\<close>: every comparison with \<^verbatim>\<open>NaN\<close> is false.\<close>

fun lessEq :: "int \<Rightarrow> int option \<Rightarrow> bool" where
  "lessEq x (Some a) = (x \<le> a)"
| "lessEq x None = False"

text \<open>
  The loop \<^verbatim>\<open>for (let i = messages.length - 1; i >= 0; i--)\<close>. The counter of
  \<open>trimLoop\<close> is \<open>i + 1\<close>; \<^verbatim>\<open>unshift\<close> puts the message in front and
  \<^verbatim>\<open>break\<close> returns what was collected.
\<close>

fun trimLoop ::
  "StoredMessage list \<Rightarrow> int option \<Rightarrow> nat \<Rightarrow> int \<Rightarrow> StoredMessage list \<Rightarrow> StoredMessage list"
where
  "trimLoop ms avail 0 totalTokens trimmed = trimmed"
| "trimLoop ms avail (Suc i) totalTokens trimmed =
    (if lessEq (totalTokens + messageTokens (ms ! i)) avail
     then trimLoop ms avail i (totalTokens + messageTokens (ms ! i)) (ms ! i # trimmed)
     else trimmed)"

definition trimContext ::
  "StoredMessage list \<Rightarrow> jsstring \<Rightarrow> jsstring option \<Rightarrow> int option \<Rightarrow> StoredMessage list"
where
  "trimContext ms name sp maxTokens =
    (let avail = availableTokens (contextLimit maxTokens name) (systemTokens sp);
         trimmed = trimLoop ms avail (length ms) 0 []
     in if length trimmed = 0 \<and> length ms > 0
        then trimmed @ [ms ! (length ms - 1)]
        else trimmed)"

text \<open>
  The cost and the limit as the specification words them: the cached \<^verbatim>\<open>tokens\<close>
  field whenever it is set, and the override whenever it is provided.
\<close>

definition specCost :: "StoredMessage \<Rightarrow> int" where
  "specCost m = (case tokens m of Some n \<Rightarrow> n | None \<Rightarrow> estimateTokens (msg_text m))"

definition specLimit :: "int option \<Rightarrow> jsstring \<Rightarrow> jsval" where
  "specLimit maxTokens name =
    (case maxTokens of Some n \<Rightarrow> JSNumber n | None \<Rightarrow> getContextLimit name)"

text \<open>
  The value of \<^verbatim>\<open>totalTokens\<close> when the loop reaches index \<open>i\<close>, all later messages
  having been admitted.
\<close>

definition runningTotal :: "StoredMessage list \<Rightarrow> nat \<Rightarrow> int" where
  "runningTotal ms i = sum_list (map messageTokens (drop (Suc i) ms))"

text \<open>
  The inputs on which the double arithmetic of \<^verbatim>\<open>trimContext\<close> is the exact integer
  arithmetic of this model: a numeric limit of magnitude at most \<open>2 ^ 50\<close>, strings shorter
  than \<open>2 ^ 53\<close> code units, and cached token counts that are non-negative integers below
  \<open>2 ^ 53\<close>.
\<close>

definition safeCount :: "int \<Rightarrow> bool" where
  "safeCount k = (0 \<le> k \<and> k < 2 ^ 53)"

definition exactInputs :: "StoredMessage list \<Rightarrow> jsstring option \<Rightarrow> jsval \<Rightarrow> bool" where
  "exactInputs ms sp limit =
    ((case limit of JSNumber n \<Rightarrow> \<bar>n\<bar> \<le> 2 ^ 50 | JSObject \<Rightarrow> True) \<and>
     (case sp of Some s \<Rightarrow> length s < 2 ^ 53 | None \<Rightarrow> True) \<and>
     list_all (\<lambda>m. length (msg_text m) < 2 ^ 53 \<and>
                   (case tokens m of Some k \<Rightarrow> safeCount k | None \<Rightarrow> True)) ms)"

section \<open>Conversation titles\<close>

text \<open>
  \<^verbatim>\<open>String.prototype.trim\<close> removes the code units of ECMA-262's WhiteSpace and
  LineTerminator productions from both ends.
\<close>

definition isWhiteSpace :: "16 word \<Rightarrow> bool" where
  "isWhiteSpace c =
    (c \<in> set [0x0009, 0x000A, 0x000B, 0x000C, 0x000D, 0x0020, 0x00A0, 0x1680,
              0x2000, 0x2001, 0x2002, 0x2003, 0x2004, 0x2005, 0x2006, 0x2007,
              0x2008, 0x2009, 0x200A, 0x2028, 0x2029, 0x202F, 0x205F, 0x3000, 0xFEFF])"

definition trim :: "jsstring \<Rightarrow> jsstring" where
  "trim s = rev (dropWhile isWhiteSpace (rev (dropWhile isWhiteSpace s)))"

text \<open>\<^verbatim>\<open>s.replace(/\n/g, ' ')\<close>\<close>

definition replaceNewlines :: "jsstring \<Rightarrow> jsstring" where
  "replaceNewlines s = map (\<lambda>c. if c = 0x000A then 0x0020 else c) s"

text \<open>
  \<^verbatim>\<open>s.substring(a, b)\<close> for non-negative integers: both indices are clamped to the
  length and swapped when \<open>a > b\<close>.
\<close>

definition substring :: "jsstring \<Rightarrow> nat \<Rightarrow> nat \<Rightarrow> jsstring" where
  "substring s a b =
    (let lo = min (min a b) (length s); hi = min (max a b) (length s)
     in take (hi - lo) (drop lo s))"

definition generateConversationTitle :: "jsstring \<Rightarrow> jsstring" where
  "generateConversationTitle firstMessage =
    (let maxLength = 50;
         cleaned = replaceNewlines (trim firstMessage)
     in if length cleaned \<le> maxLength then cleaned
        else substring cleaned 0 (maxLength - 3) @ js ''...'')"

text \<open>
  The title as the specification words it: newlines become spaces, a result of at most 50
  code units is returned unchanged, a longer one is cut to 47 code units and an ellipsis.
\<close>

definition specTitle :: "jsstring \<Rightarrow> jsstring" where
  "specTitle s =
    (let collapsed = replaceNewlines s
     in if length collapsed \<le> 50 then collapsed else take 47 collapsed @ js ''...'')"

section \<open>Persistence\<close>

text \<open>
  AsyncStorage holds one item per key. An awaited read either rejects or resolves; for the
  two JSON collections a read whose text does not decode counts as rejecting, since
  \<^verbatim>\<open>JSON.parse\<close> throws inside the same \<^verbatim>\<open>try\<close> block. A stored collection is
  kept decoded: \<^verbatim>\<open>JSON.stringify\<close> followed by the decoding of
  \<^verbatim>\<open>getConversations\<close> gives back the same records. \<open>Resolved None\<close> is the
  \<^verbatim>\<open>null\<close> of a missing item. Whether a write rejects is part of the state.
\<close>

datatype 'a outcome = Rejected | Resolved 'a

datatype error = StorageError

record Storage =
  stored_conversations :: "Conversation list option outcome"
  custom_system_prompts :: "SystemPrompt list option outcome"
  string_items :: "jsstring \<Rightarrow> jsstring option outcome"
  setItem_rejects :: bool

definition getConversations :: "Storage \<Rightarrow> Conversation list" where
  "getConversations st =
    (case stored_conversations st of
       Rejected \<Rightarrow> []
     | Resolved None \<Rightarrow> []
     | Resolved (Some conversations) \<Rightarrow> conversations)"

text \<open>\<^verbatim>\<open>Array.prototype.findIndex\<close>; \<open>None\<close> is the result \<open>-1\<close>.\<close>

fun findIndex :: "('a \<Rightarrow> bool) \<Rightarrow> 'a list \<Rightarrow> nat option" where
  "findIndex P [] = None"
| "findIndex P (x # xs) = (if P x then Some 0 else map_option Suc (findIndex P xs))"

text \<open>
  \<open>now\<close> is the value of \<^verbatim>\<open>new Date()\<close> at the call, in milliseconds. The result is
  \<open>Inl\<close> when the function throws.
\<close>

definition saveConversation :: "int \<Rightarrow> Conversation \<Rightarrow> Storage \<Rightarrow> error + Storage" where
  "saveConversation now conversation st =
    (let conversations = getConversations st;
         updated =
           (case findIndex (\<lambda>c. conv_id c = conv_id conversation) conversations of
              Some existingIndex \<Rightarrow>
                conversations[existingIndex := conversation\<lparr>updatedAt := now\<rparr>]
            | None \<Rightarrow> conversations @ [conversation])
     in if setItem_rejects st then Inl StorageError
        else Inr (st\<lparr>stored_conversations := Resolved (Some updated)\<rparr>))"

section \<open>System prompts\<close>

definition DEFAULT_SYSTEM_PROMPTS :: "SystemPrompt list" where
  "DEFAULT_SYSTEM_PROMPTS =
    [\<lparr>prompt_id = js ''default'', prompt_name = js ''Default Assistant'',
      prompt = js ''You are a helpful AI assistant. Be concise, accurate, and friendly in your responses.'',
      isDefault = True, prompt_providerId = None, prompt_modelName = None\<rparr>,
     \<lparr>prompt_id = js ''creative'', prompt_name = js ''Creative Writer'',
      prompt = js ''You are a creative writing assistant. Help with storytelling, character development, and imaginative content. Be creative and inspiring.'',
      isDefault = True, prompt_providerId = None, prompt_modelName = None\<rparr>,
     \<lparr>prompt_id = js ''technical'', prompt_name = js ''Technical Expert'',
      prompt = js ''You are a technical expert and programming assistant. Provide accurate, detailed technical information and code examples when appropriate.'',
      isDefault = True, prompt_providerId = None, prompt_modelName = None\<rparr>,
     \<lparr>prompt_id = js ''teacher'', prompt_name = js ''Patient Teacher'',
      prompt = js ''You are a patient and encouraging teacher. Explain concepts clearly, provide examples, and adapt your explanations to the user's level of understanding.'',
      isDefault = True, prompt_providerId = None, prompt_modelName = None\<rparr>,
     \<lparr>prompt_id = js ''analyst'', prompt_name = js ''Research Analyst'',
      prompt = js ''You are a research analyst. Provide thorough analysis, cite sources when possible, and present information in a structured, objective manner.'',
      isDefault = True, prompt_providerId = None, prompt_modelName = None\<rparr>]"

definition getSystemPrompts :: "Storage \<Rightarrow> SystemPrompt list" where
  "getSystemPrompts st =
    (case custom_system_prompts st of
       Rejected \<Rightarrow> DEFAULT_SYSTEM_PROMPTS
     | Resolved None \<Rightarrow> DEFAULT_SYSTEM_PROMPTS @ []
     | Resolved (Some customPrompts) \<Rightarrow> DEFAULT_SYSTEM_PROMPTS @ customPrompts)"

definition selectedPromptKey :: "jsstring \<Rightarrow> jsstring \<Rightarrow> jsstring" where
  "selectedPromptKey provider name = js ''system_prompt_'' @ provider @ js ''_'' @ name"

definition getSelectedSystemPrompt :: "jsstring \<Rightarrow> jsstring \<Rightarrow> Storage \<Rightarrow> jsstring" where
  "getSelectedSystemPrompt provider name st =
    (case string_items st (selectedPromptKey provider name) of
       Rejected \<Rightarrow> prompt (DEFAULT_SYSTEM_PROMPTS ! 0)
     | Resolved None \<Rightarrow> prompt (DEFAULT_SYSTEM_PROMPTS ! 0)
     | Resolved (Some promptId) \<Rightarrow>
         if promptId \<noteq> [] then
           (case find (\<lambda>p. prompt_id p = promptId) (getSystemPrompts st) of
              Some p \<Rightarrow> if prompt p \<noteq> [] then prompt p else prompt (DEFAULT_SYSTEM_PROMPTS ! 0)
            | None \<Rightarrow> prompt (DEFAULT_SYSTEM_PROMPTS ! 0))
         else prompt (DEFAULT_SYSTEM_PROMPTS ! 0))"

text \<open>
  The selection as the specification words it: the stored id is looked up among the
  built-in and custom prompts, and the text of the prompt found is returned.
\<close>

definition specSelected :: "jsstring \<Rightarrow> jsstring \<Rightarrow> Storage \<Rightarrow> jsstring" where
  "specSelected provider name st =
    (case string_items st (selectedPromptKey provider name) of
       Resolved (Some promptId) \<Rightarrow>
         (case find (\<lambda>p. prompt_id p = promptId) (getSystemPrompts st) of
            Some p \<Rightarrow> prompt p
          | None \<Rightarrow> prompt (DEFAULT_SYSTEM_PROMPTS ! 0))
     | _ \<Rightarrow> prompt (DEFAULT_SYSTEM_PROMPTS ! 0))"

section \<open>Example inputs\<close>

definition msg_hi :: StoredMessage where
  "msg_hi = \<lparr>msg_id = js ''1'', msg_text = js ''hi'', isUser = True, timestamp = 0,
     tokens = None\<rparr>"

definition msg_hello :: StoredMessage where
  "msg_hello = \<lparr>msg_id = js ''2'', msg_text = js ''hello there'', isUser = False,
     timestamp = 1, tokens = Some 3\<rparr>"

definition msg_zero :: StoredMessage where
  "msg_zero = \<lparr>msg_id = js ''3'', msg_text = js ''hello there'', isUser = False,
     timestamp = 2, tokens = Some 0\<rparr>"

definition msg_empty :: StoredMessage where
  "msg_empty = \<lparr>msg_id = js ''4'', msg_text = js '''', isUser = True, timestamp = 3,
     tokens = None\<rparr>"

definition conv_new :: Conversation where
  "conv_new = \<lparr>conv_id = js ''1700000000000'', title = js ''New Conversation'',
     messages = [], providerId = js ''openai'', modelName = js ''gpt-4o'',
     systemPrompt = None, createdAt = 1000, updatedAt = 1000\<rparr>"

definition storage_empty :: Storage where
  "storage_empty = \<lparr>stored_conversations = Resolved None,
     custom_system_prompts = Resolved None,
     string_items = (\<lambda>key. Resolved None),
     setItem_rejects = False\<rparr>"

definition prompt_blank :: SystemPrompt where
  "prompt_blank = \<lparr>prompt_id = js ''mine'', prompt_name = js ''Mine'', prompt = [],
     isDefault = False, prompt_providerId = None, prompt_modelName = None\<rparr>"

definition prompt_pirate :: SystemPrompt where
  "prompt_pirate = \<lparr>prompt_id = js ''pirate'', prompt_name = js ''Pirate'',
     prompt = js ''Answer like a pirate.'',
     isDefault = False, prompt_providerId = None, prompt_modelName = None\<rparr>"

definition storage_prefers :: "jsstring \<Rightarrow> Storage" where
  "storage_prefers promptId = \<lparr>stored_conversations = Resolved None,
     custom_system_prompts = Resolved (Some [prompt_blank, prompt_pirate]),
     string_items = (\<lambda>key. if key = selectedPromptKey (js ''openai'') (js ''gpt-4o'')
                             then Resolved (Some promptId) else Resolved None),
     setItem_rejects = False\<rparr>"

section \<open>Evaluation lemmas\<close>

lemma estimateTokens_div: "estimateTokens s = (int (length s) + 3) div 4"
proof -
  have "\<lceil>real (length s) / 4\<rceil> = \<lceil>real_of_int (int (length s)) / real_of_int 4\<rceil>"
    by simp
  also have "\<dots> = - ((- int (length s)) div 4)"
    by (simp only: ceiling_divide_eq_div)
  also have "\<dots> = (int (length s) + 3) div 4"
    by linarith
  finally show ?thesis
    by (simp add: estimateTokens_def)
qed

lemma floor_four_fifths: "\<lfloor>real_of_int n * 0.8\<rfloor> = (4 * n) div 5"
proof -
  have "real_of_int n * 0.8 = real_of_int (4 * n) / real_of_int 5"
    by simp
  then show ?thesis
    by (simp only: floor_divide_of_int_eq)
qed

section \<open>Supporting lemmas\<close>

text \<open>Literals: \<open>js\<close> is injective, so names compare as the literals do.\<close>

lemma unat_of_char16: "unat (of_char c :: 16 word) = of_char c"
proof -
  have lt: "(of_char c :: nat) < 65536"
    by (cases c) (simp add: of_char_def)
  have "(of_char c :: 16 word) = of_nat (of_char c)"
    by (simp add: of_char_def)
  then have "unat (of_char c :: 16 word) = of_char c mod 65536"
    by (simp add: unat_of_nat)
  with lt show ?thesis
    by simp
qed

lemma js_inj: "js a = js b \<longleftrightarrow> a = b"
proof -
  have "inj (of_char :: char \<Rightarrow> 16 word)"
  proof (rule injI)
    fix x y :: char
    assume "(of_char x :: 16 word) = of_char y"
    then have "unat (of_char x :: 16 word) = unat (of_char y :: 16 word)"
      by simp
    then show "x = y"
      by (simp add: unat_of_char16)
  qed
  then show ?thesis
    by (auto simp: js_def inj_map_eq_map)
qed

lemma js_Nil: "js s = [] \<longleftrightarrow> s = []"
  by (simp add: js_def)

lemma length_js: "length (js s) = length s"
  by (simp add: js_def)

text \<open>Costs.\<close>

lemma estimateTokens_nonneg: "0 \<le> estimateTokens s"
  by (simp add: estimateTokens_div)

lemma specCost_le: "specCost m \<le> messageTokens m"
  by (simp add: specCost_def messageTokens_def estimateTokens_nonneg split: option.split)

text \<open>
  The loop invariants: what has been collected is the suffix from the counter on; the
  running total is the cost of what has been collected and, once anything was admitted,
  within the budget; and the walk reaches every index down to which each message fits.
\<close>

lemma last_as_drop: "ms \<noteq> [] \<Longrightarrow> [last ms] = drop (length ms - 1) ms"
  by (cases ms rule: rev_cases) simp_all

lemma trimLoop_suffix:
  "n \<le> length ms \<Longrightarrow> trimmed = drop n ms \<Longrightarrow>
   \<exists>k\<le>n. trimLoop ms avail n tot trimmed = drop k ms"
proof (induction n arbitrary: tot trimmed)
  case 0
  then show ?case by simp
next
  case (Suc i)
  have step: "ms ! i # trimmed = drop i ms"
    using Suc.prems by (simp add: Cons_nth_drop_Suc)
  show ?case
  proof (cases "lessEq (tot + messageTokens (ms ! i)) avail")
    case True
    from Suc.IH [of "ms ! i # trimmed" "tot + messageTokens (ms ! i)"] step Suc.prems
    obtain k where "k \<le> i"
      and "trimLoop ms avail i (tot + messageTokens (ms ! i)) (ms ! i # trimmed) = drop k ms"
      by auto
    with True show ?thesis by (intro exI [of _ k]) simp
  next
    case False
    with Suc.prems show ?thesis by (intro exI [of _ "Suc i"]) simp
  qed
qed

lemma trimLoop_budget:
  "tot = sum_list (map messageTokens trimmed) \<Longrightarrow>
   (trimmed \<noteq> [] \<longrightarrow> lessEq tot avail) \<Longrightarrow>
   trimLoop ms avail n tot trimmed \<noteq> [] \<Longrightarrow>
   lessEq (sum_list (map messageTokens (trimLoop ms avail n tot trimmed))) avail"
proof (induction n arbitrary: tot trimmed)
  case 0
  then show ?case by simp
next
  case (Suc i)
  show ?case
  proof (cases "lessEq (tot + messageTokens (ms ! i)) avail")
    case True
    have "lessEq (sum_list (map messageTokens
        (trimLoop ms avail i (tot + messageTokens (ms ! i)) (ms ! i # trimmed)))) avail"
      using Suc.prems True by (intro Suc.IH) simp_all
    with True show ?thesis by simp
  next
    case False
    with Suc.prems show ?thesis by simp
  qed
qed

lemma trimLoop_reaches:
  "i \<le> n \<Longrightarrow> n \<le> length ms \<Longrightarrow> trimmed = drop n ms \<Longrightarrow>
   tot = sum_list (map messageTokens (drop n ms)) \<Longrightarrow>
   \<forall>j. i \<le> j \<and> j < n \<longrightarrow> runningTotal ms j + messageTokens (ms ! j) \<le> a \<Longrightarrow>
   \<exists>k\<le>i. trimLoop ms (Some a) n tot trimmed = drop k ms"
proof (induction n arbitrary: tot trimmed)
  case 0
  then show ?case by simp
next
  case (Suc n)
  show ?case
  proof (cases "i = Suc n")
    case True
    with trimLoop_suffix [of "Suc n" ms trimmed "Some a" tot] Suc.prems show ?thesis
      by simp
  next
    case False
    with Suc.prems have i: "i \<le> n" and n: "n < length ms"
      by simp_all
    have step: "ms ! n # trimmed = drop n ms"
      using Suc.prems n by (simp add: Cons_nth_drop_Suc)
    have tot: "tot + messageTokens (ms ! n) = sum_list (map messageTokens (drop n ms))"
      using Suc.prems by (simp flip: step)
    have "runningTotal ms n + messageTokens (ms ! n) \<le> a"
      using Suc.prems i by simp
    then have fits: "tot + messageTokens (ms ! n) \<le> a"
      using Suc.prems by (simp add: runningTotal_def)
    have "\<exists>k\<le>i. trimLoop ms (Some a) n (tot + messageTokens (ms ! n)) (ms ! n # trimmed)
        = drop k ms"
      using i n step tot Suc.prems(5) by (intro Suc.IH) simp_all
    with fits show ?thesis
      by simp
  qed
qed

lemma trimContext_cases:
  "trimContext ms name sp mt =
    (let r = trimLoop ms (availableTokens (contextLimit mt name) (systemTokens sp)) (length ms) 0 []
     in if r = [] \<and> ms \<noteq> [] then [last ms] else r)"
  by (simp add: trimContext_def Let_def last_conv_nth)

text \<open>Simplification sets for evaluating the model on concrete inputs.\<close>

lemmas eval_defs =
  trimContext_def contextLimit_def systemTokens_def messageTokens_def specCost_def
  specLimit_def estimateTokens_div floor_four_fifths msg_hi_def msg_hello_def length_js
  js_Nil

lemmas table_defs =
  getContextLimit_def getProperty_def MODEL_CONTEXT_LIMITS_def Object_prototype_def js_inj

lemmas title_defs =
  generateConversationTitle_def specTitle_def trim_def isWhiteSpace_def replaceNewlines_def
  substring_def js_def

lemmas prompt_defs =
  getSelectedSystemPrompt_def specSelected_def storage_prefers_def storage_empty_def
  getSystemPrompts_def DEFAULT_SYSTEM_PROMPTS_def prompt_blank_def prompt_pirate_def
  js_inj js_Nil

text \<open>
  The capacity lookup on the names that \<^verbatim>\<open>Object.prototype\<close> does not define: an
  exact match in the table, else 4096, and never less than 4096.
\<close>

lemma table_values: "\<forall>(k, v)\<in>set MODEL_CONTEXT_LIMITS. 4096 \<le> v"
  by (simp add: MODEL_CONTEXT_LIMITS_def)

lemma getContextLimit_own:
  "name \<notin> set Object_prototype \<Longrightarrow>
   getContextLimit name =
     (case map_of MODEL_CONTEXT_LIMITS name of Some n \<Rightarrow> JSNumber n | None \<Rightarrow> JSNumber 4096)"
proof -
  assume own: "name \<notin> set Object_prototype"
  show ?thesis
  proof (cases "map_of MODEL_CONTEXT_LIMITS name")
    case None
    with own show ?thesis
      by (simp add: getContextLimit_def getProperty_def)
  next
    case (Some n)
    then have "(name, n) \<in> set MODEL_CONTEXT_LIMITS"
      by (rule map_of_SomeD)
    with table_values have "4096 \<le> n"
      by auto
    with Some show ?thesis
      by (simp add: getContextLimit_def getProperty_def)
  qed
qed

lemma getContextLimit_own_at_least:
  "name \<notin> set Object_prototype \<Longrightarrow> \<exists>n\<ge>4096. getContextLimit name = JSNumber n"
proof -
  assume own: "name \<notin> set Object_prototype"
  show ?thesis
  proof (cases "map_of MODEL_CONTEXT_LIMITS name")
    case None
    with own show ?thesis
      by (simp add: getContextLimit_own)
  next
    case (Some n)
    then have "(name, n) \<in> set MODEL_CONTEXT_LIMITS"
      by (rule map_of_SomeD)
    with table_values have "4096 \<le> n"
      by auto
    with Some own show ?thesis
      by (simp add: getContextLimit_own)
  qed
qed

lemma inherited_constructor: "getContextLimit (js ''constructor'') = JSObject"
  by (simp add: table_defs)

lemma getContextLimit_examples:
  "getContextLimit (js ''unknown-model-xyz'') = JSNumber 4096 \<and>
   getContextLimit (js ''gpt-4o'') = JSNumber 128000 \<and>
   getContextLimit (js ''GPT-4o'') = JSNumber 4096"
  by (simp add: table_defs)

text \<open>A title of more than 50 code units is cut to 47 and an ellipsis.\<close>

lemma generateConversationTitle_long:
  "generateConversationTitle
     (js ''  0123456789012345678901234567890123456789012345678901234567 '')
     = js ''01234567890123456789012345678901234567890123456...''"
  by (simp add: title_defs)

text \<open>
  The two branches of \<^verbatim>\<open>saveConversation\<close>: a conversation whose id is stored
  replaces the first one with that id and gets \<open>updatedAt = now\<close>; one whose id is new
  is appended as it is.
\<close>

lemma saveConversation_new:
  "findIndex (\<lambda>c. conv_id c = conv_id conversation) (getConversations st) = None \<Longrightarrow>
   \<not> setItem_rejects st \<Longrightarrow>
   \<exists>st'. saveConversation now conversation st = Inr st' \<and>
         getConversations st' = getConversations st @ [conversation]"
  by (simp add: saveConversation_def getConversations_def)

lemma saveConversation_existing:
  "findIndex (\<lambda>c. conv_id c = conv_id conversation) (getConversations st) = Some i \<Longrightarrow>
   \<not> setItem_rejects st \<Longrightarrow>
   \<exists>st'. saveConversation now conversation st = Inr st' \<and>
         getConversations st' = (getConversations st)[i := conversation\<lparr>updatedAt := now\<rparr>]"
  by (simp add: saveConversation_def getConversations_def)

section \<open>The context trimmer\<close>

text \<open>
  Claim C1. For every message list, model name, optional system prompt and optional
  override, the result of \<^verbatim>\<open>trimContext\<close> is a contiguous suffix of the input in the
  original order: it is \<open>drop k ms\<close> for some index \<open>k\<close>.
\<close>

theorem trimContext_suffix: "\<exists>k. trimContext ms name sp mt = drop k ms"
proof -
  let ?r = "trimLoop ms (availableTokens (contextLimit mt name) (systemTokens sp)) (length ms) 0 []"
  show ?thesis
  proof (cases "?r = [] \<and> ms \<noteq> []")
    case True
    then have "trimContext ms name sp mt = drop (length ms - 1) ms"
      by (simp add: trimContext_cases last_as_drop)
    then show ?thesis ..
  next
    case False
    obtain k where "?r = drop k ms"
      using trimLoop_suffix [of "length ms" ms "[]"] by auto
    with False have "trimContext ms name sp mt = drop k ms"
      by (auto simp add: trimContext_cases)
    then show ?thesis ..
  qed
qed

text \<open>
  Claim C2. The result of \<^verbatim>\<open>trimContext\<close> is non-empty exactly when the input is
  non-empty; when the backward walk admits no message of a non-empty input, the result is
  the single most recent message; the empty input gives the empty result. The function has
  no failing branch: every index the loop reads is below the length.
\<close>

theorem trimContext_nonempty:
  "(trimContext ms name sp mt \<noteq> [] \<longleftrightarrow> ms \<noteq> []) \<and>
   (ms \<noteq> [] \<and>
    trimLoop ms (availableTokens (contextLimit mt name) (systemTokens sp)) (length ms) 0 [] = []
      \<longrightarrow> trimContext ms name sp mt = [last ms]) \<and>
   trimContext [] name sp mt = []"
  by (auto simp add: trimContext_cases Let_def)

text \<open>
  With an override of 1 the budget is 0, the most recent message costs 3, the walk admits
  nothing, and that message alone is returned.
\<close>

theorem trimContext_nonempty_witness:
  "trimLoop [msg_hi, msg_hello]
     (availableTokens (contextLimit (Some 1) (js ''gpt-4o'')) (systemTokens None)) 2 0 [] = [] \<and>
   trimContext [msg_hi, msg_hello] (js ''gpt-4o'') None (Some 1) = [msg_hello]"
  using trimContext_nonempty [of "[msg_hi, msg_hello]" "js ''gpt-4o''" None "Some 1"]
  by (simp add: eval_defs numeral_2_eq_2)

text \<open>
  Claim C3 as stated takes the limit to be the override whenever one is provided, and the
  cost of a message to be its cached \<^verbatim>\<open>tokens\<close> field whenever that is set. Both are
  read through \<^verbatim>\<open>||\<close> in the code, which passes over a 0. An override of 0 is
  provided, yet with the model \<^verbatim>\<open>gpt-4\<close> both messages are kept, at a cost of 4, while
  the stated budget \<open>\<lfloor>0 * 0.8\<rfloor> - 0\<close> is 0. And with an override of 1 (budget 0), a most
  recent message of cost 0 and before it a message whose cached count is 0, the stated
  running total plus the stated cost equals the budget, a tie, yet the message is left out:
  the code charges it the estimate of its text, 3.
\<close>

theorem trimContext_budget_counterexample:
  "1 < length (trimContext [msg_hi, msg_hello] (js ''gpt-4'') None (Some 0)) \<and>
   specLimit (Some 0) (js ''gpt-4'') = JSNumber 0 \<and>
   \<not> sum_list (map specCost (trimContext [msg_hi, msg_hello] (js ''gpt-4'') None (Some 0)))
       \<le> \<lfloor>real_of_int 0 * 0.8\<rfloor> - systemTokens None \<and>
   specLimit (Some 1) (js ''gpt-4'') = JSNumber 1 \<and>
   sum_list (map specCost [msg_empty]) + specCost msg_zero
     = \<lfloor>real_of_int 1 * 0.8\<rfloor> - systemTokens None \<and>
   trimContext [msg_zero, msg_empty] (js ''gpt-4'') None (Some 1) = [msg_empty]"
  by (simp add: eval_defs table_defs msg_zero_def msg_empty_def)

text \<open>
  Claim C3, amended. On the inputs where the double arithmetic is exact (a limit of
  magnitude at most \<open>2 ^ 50\<close>, strings shorter than \<open>2 ^ 53\<close>, cached counts that are
  non-negative integers below \<open>2 ^ 53\<close>): if the result has more than one message, the
  limit in use is a number \<open>n\<close> --- the override when it is provided and not 0, else the
  capacity-table value --- and the sum of the messages' costs is at most
  \<open>\<lfloor>n * 0.8\<rfloor> - systemTokens\<close>, where the cost of a message is its cached
  \<^verbatim>\<open>tokens\<close> field if that is set and not 0, else the estimate of its text (the sum
  with a cached 0 counted as 0 is no larger). Ties are included: when every message after
  index \<open>i\<close> fits and the running total plus the cost of message \<open>i\<close> equals the budget,
  message \<open>i\<close> is in the result.
\<close>

theorem trimContext_budget:
  "exactInputs ms sp (contextLimit mt name) \<longrightarrow>
   (1 < length (trimContext ms name sp mt) \<longrightarrow>
      (\<exists>n. contextLimit mt name = JSNumber n \<and>
           sum_list (map specCost (trimContext ms name sp mt))
             \<le> sum_list (map messageTokens (trimContext ms name sp mt)) \<and>
           sum_list (map messageTokens (trimContext ms name sp mt))
             \<le> \<lfloor>real_of_int n * 0.8\<rfloor> - systemTokens sp)) \<and>
   (contextLimit mt name = JSNumber n \<and> i < length ms \<and>
    (\<forall>j. i < j \<and> j < length ms \<longrightarrow>
       runningTotal ms j + messageTokens (ms ! j) \<le> \<lfloor>real_of_int n * 0.8\<rfloor> - systemTokens sp) \<and>
    runningTotal ms i + messageTokens (ms ! i) = \<lfloor>real_of_int n * 0.8\<rfloor> - systemTokens sp
      \<longrightarrow> (\<exists>k\<le>i. trimContext ms name sp mt = drop k ms))"
proof (intro conjI impI)
  let ?avail = "availableTokens (contextLimit mt name) (systemTokens sp)"
  let ?r = "trimLoop ms ?avail (length ms) 0 []"
  assume long: "1 < length (trimContext ms name sp mt)"
  then have r: "trimContext ms name sp mt = ?r"
    by (simp add: trimContext_cases Let_def split: if_splits)
  with long have "?r \<noteq> []"
    by auto
  then have fits: "lessEq (sum_list (map messageTokens ?r)) ?avail"
    by (intro trimLoop_budget) simp_all
  then obtain a where a: "?avail = Some a"
    by (cases ?avail) simp_all
  then obtain n where n: "contextLimit mt name = JSNumber n"
    and an: "a = \<lfloor>real_of_int n * 0.8\<rfloor> - systemTokens sp"
    by (cases "contextLimit mt name") simp_all
  have "sum_list (map specCost ?r) \<le> sum_list (map messageTokens ?r)"
    by (intro sum_list_mono) (simp add: specCost_le)
  moreover have "sum_list (map messageTokens ?r) \<le> a"
    using fits a by simp
  ultimately show "\<exists>n. contextLimit mt name = JSNumber n \<and>
      sum_list (map specCost (trimContext ms name sp mt))
        \<le> sum_list (map messageTokens (trimContext ms name sp mt)) \<and>
      sum_list (map messageTokens (trimContext ms name sp mt))
        \<le> \<lfloor>real_of_int n * 0.8\<rfloor> - systemTokens sp"
    using n an r by simp
next
  let ?b = "\<lfloor>real_of_int n * 0.8\<rfloor> - systemTokens sp"
  assume tie: "contextLimit mt name = JSNumber n \<and> i < length ms \<and>
    (\<forall>j. i < j \<and> j < length ms \<longrightarrow> runningTotal ms j + messageTokens (ms ! j) \<le> ?b) \<and>
    runningTotal ms i + messageTokens (ms ! i) = ?b"
  have all: "\<forall>j. i \<le> j \<and> j < length ms \<longrightarrow> runningTotal ms j + messageTokens (ms ! j) \<le> ?b"
  proof (intro allI impI)
    fix j
    assume j: "i \<le> j \<and> j < length ms"
    show "runningTotal ms j + messageTokens (ms ! j) \<le> ?b"
    proof (cases "j = i")
      case True
      with tie show ?thesis by simp
    next
      case False
      with j have "i < j \<and> j < length ms" by simp
      with tie show ?thesis by blast
    qed
  qed
  from tie have "i \<le> length ms"
    by simp
  then obtain k where k: "k \<le> i" and walk: "trimLoop ms (Some ?b) (length ms) 0 [] = drop k ms"
    using trimLoop_reaches [of i "length ms" ms "[]" 0 ?b] all by auto
  from k tie have "drop k ms \<noteq> []"
    by simp
  with walk tie have "trimContext ms name sp mt = drop k ms"
    by (simp add: trimContext_cases)
  with k show "\<exists>k\<le>i. trimContext ms name sp mt = drop k ms"
    by blast
qed

text \<open>
  With an override of 5 the budget is 4. Of three messages costing 3, 1 and 3 the last
  fits, the middle one brings the running total to exactly 4 and is kept, and the first is
  left out.
\<close>

theorem trimContext_budget_witness:
  "exactInputs [msg_hello, msg_hi, msg_hello] None (contextLimit (Some 5) (js ''gpt-4o'')) \<and>
   1 < length (trimContext [msg_hello, msg_hi, msg_hello] (js ''gpt-4o'') None (Some 5)) \<and>
   sum_list (map messageTokens
       (trimContext [msg_hello, msg_hi, msg_hello] (js ''gpt-4o'') None (Some 5))) \<le> 4 \<and>
   runningTotal [msg_hello, msg_hi, msg_hello] 1 + messageTokens msg_hi = 4 \<and>
   (\<exists>k\<le>1. trimContext [msg_hello, msg_hi, msg_hello] (js ''gpt-4o'') None (Some 5)
      = drop k [msg_hello, msg_hi, msg_hello]) \<and>
   trimContext [msg_hello, msg_hi, msg_hello] (js ''gpt-4o'') None (Some 5) = [msg_hi, msg_hello]"
proof -
  let ?ms = "[msg_hello, msg_hi, msg_hello]"
  let ?name = "js ''gpt-4o''"
  have limit: "contextLimit (Some 5) ?name = JSNumber 5"
    by (simp add: contextLimit_def)
  have budget: "\<lfloor>real_of_int 5 * 0.8\<rfloor> - systemTokens None = 4"
    by (simp add: systemTokens_def)
  have exact: "exactInputs ?ms None (contextLimit (Some 5) ?name)"
    by (simp add: exactInputs_def safeCount_def limit eval_defs)
  have result: "trimContext ?ms ?name None (Some 5) = [msg_hi, msg_hello]"
    by (simp add: eval_defs numeral_3_eq_3)
  have tie: "runningTotal ?ms 1 + messageTokens (?ms ! 1) = 4"
    by (simp add: runningTotal_def eval_defs)
  have later: "\<forall>j. 1 < j \<and> j < length ?ms \<longrightarrow> runningTotal ?ms j + messageTokens (?ms ! j) \<le> 4"
  proof (intro allI impI)
    fix j :: nat
    assume "1 < j \<and> j < length ?ms"
    then have "j = 2"
      by simp
    then show "runningTotal ?ms j + messageTokens (?ms ! j) \<le> 4"
      by (simp add: runningTotal_def eval_defs)
  qed
  note inst = trimContext_budget [of ?ms None "Some 5" ?name 5 1, THEN mp, OF exact]
  have long: "1 < length (trimContext ?ms ?name None (Some 5))"
    by (simp add: result)
  with inst [THEN conjunct1]
  have "\<exists>n. contextLimit (Some 5) ?name = JSNumber n \<and>
      sum_list (map specCost (trimContext ?ms ?name None (Some 5)))
        \<le> sum_list (map messageTokens (trimContext ?ms ?name None (Some 5))) \<and>
      sum_list (map messageTokens (trimContext ?ms ?name None (Some 5)))
        \<le> \<lfloor>real_of_int n * 0.8\<rfloor> - systemTokens None"
    by (rule mp)
  then have bound: "sum_list (map messageTokens (trimContext ?ms ?name None (Some 5))) \<le> 4"
    using limit budget by auto
  have kept: "\<exists>k\<le>1. trimContext ?ms ?name None (Some 5) = drop k ?ms"
    using inst [THEN conjunct2] limit budget tie later by simp
  have tie': "runningTotal ?ms 1 + messageTokens msg_hi = 4"
    using tie by simp
  from exact long bound tie' kept result show ?thesis
    by blast
qed

section \<open>The token estimator\<close>

text \<open>
  Claim C4. \<^verbatim>\<open>estimateTokens(text)\<close> is \<open>\<lceil>length text / 4\<rceil>\<close> for every string; it is
  monotone in the length; and it is 0 on the empty string, 1 on \<^verbatim>\<open>"abcd"\<close> and 2 on
  \<^verbatim>\<open>"abcde"\<close>.
\<close>

theorem estimateTokens_ceiling:
  "estimateTokens s = \<lceil>real (length s) / 4\<rceil> \<and>
   (length a \<le> length b \<longrightarrow> estimateTokens a \<le> estimateTokens b) \<and>
   estimateTokens (js '''') = 0 \<and>
   estimateTokens (js ''abcd'') = 1 \<and>
   estimateTokens (js ''abcde'') = 2"
proof (intro conjI impI)
  show "estimateTokens s = \<lceil>real (length s) / 4\<rceil>"
    by (simp add: estimateTokens_def)
next
  assume "length a \<le> length b"
  then have "(int (length a) + 3) div 4 \<le> (int (length b) + 3) div 4"
    by (intro zdiv_mono1) simp_all
  then show "estimateTokens a \<le> estimateTokens b"
    by (simp add: estimateTokens_div)
qed (simp_all add: estimateTokens_div js_def)

theorem estimateTokens_ceiling_witness:
  "length (js ''abcde'') \<le> length (js ''abcdefghi'') \<and>
   estimateTokens (js ''abcde'') = 2 \<and> estimateTokens (js ''abcdefghi'') = 3 \<and>
   estimateTokens (js ''abcde'') \<le> estimateTokens (js ''abcdefghi'')"
  using estimateTokens_ceiling [of "js ''abcde''" "js ''abcde''" "js ''abcdefghi''"]
  by (simp add: estimateTokens_div js_def)

section \<open>The capacity lookup\<close>

text \<open>
  Claim C5 says that \<^verbatim>\<open>getContextLimit\<close> returns 4096 for every model name absent
  from the table. The name \<^verbatim>\<open>constructor\<close> is absent from the table, but the read
  \<^verbatim>\<open>MODEL_CONTEXT_LIMITS["constructor"]\<close> finds the property inherited from
  \<^verbatim>\<open>Object.prototype\<close>, a function; it is truthy, so \<^verbatim>\<open>|| 4096\<close> does not apply
  and the function itself is returned.
\<close>

theorem getContextLimit_inherited_name:
  "map_of MODEL_CONTEXT_LIMITS (js ''constructor'') = None \<and>
   getContextLimit (js ''constructor'') = JSObject \<and>
   getContextLimit (js ''constructor'') \<noteq> JSNumber 4096"
  by (simp add: table_defs)

text \<open>
  Claim C10 says that \<^verbatim>\<open>getContextLimit\<close> returns at least 4096 for every model name.
  For the name \<^verbatim>\<open>constructor\<close> the result is no number at all: the budget computed
  from it is \<^verbatim>\<open>NaN\<close>, every comparison with it fails, and the trimmer keeps only the
  forced last message.
\<close>

theorem getContextLimit_not_a_number:
  "\<not> (\<exists>n\<ge>4096. getContextLimit (js ''constructor'') = JSNumber n) \<and>
   availableTokens (getContextLimit (js ''constructor'')) 0 = None \<and>
   trimContext [msg_hi, msg_hello] (js ''constructor'') None None = [msg_hello]"
  by (simp add: inherited_constructor eval_defs)

section \<open>The override\<close>

text \<open>
  Claim C6 as stated holds for every provided integer, 0 included. An override of 0 is
  falsy, so \<^verbatim>\<open>maxTokens || this.getContextLimit(modelName)\<close> takes the table value:
  for \<^verbatim>\<open>gpt-4o\<close> the limit is 128000, not 0, and both messages fit.
\<close>

theorem contextLimit_override_counterexample:
  "contextLimit (Some 0) (js ''gpt-4o'') = JSNumber 128000 \<and>
   contextLimit (Some 0) (js ''gpt-4o'') \<noteq> JSNumber 0 \<and>
   trimContext [msg_hi, msg_hello] (js ''gpt-4o'') None (Some 0) = [msg_hi, msg_hello]"
  by (simp add: table_defs eval_defs)

text \<open>
  Claim C6, amended. Whenever the override is provided and is not 0, the limit is exactly
  the override and the model name plays no part in the result; an override of 0 is treated
  like an absent one, and the limit is the capacity lookup for the model name.
\<close>

theorem contextLimit_override:
  "(n \<noteq> 0 \<longrightarrow> contextLimit (Some n) name = JSNumber n \<and>
      trimContext ms name sp (Some n) = trimContext ms name' sp (Some n)) \<and>
   contextLimit (Some 0) name = getContextLimit name \<and>
   contextLimit None name = getContextLimit name"
  by (simp add: contextLimit_def trimContext_def)

theorem contextLimit_override_witness:
  "contextLimit (Some 100) (js ''gpt-4o'') = JSNumber 100 \<and>
   trimContext [msg_hi, msg_hello] (js ''gpt-4o'') None (Some 100)
     = trimContext [msg_hi, msg_hello] (js ''gemini-pro'') None (Some 100)"
  using contextLimit_override [of 100 "js ''gpt-4o''" "[msg_hi, msg_hello]" None "js ''gemini-pro''"]
  by simp

section \<open>Conversation titles\<close>

text \<open>
  Claim C7 as stated starts with the replacement of newlines. The code trims the input
  first: a leading space is removed, so the title of \<^verbatim>\<open>" hi"\<close> is \<^verbatim>\<open>"hi"\<close>,
  where the stated transform keeps the three code units.
\<close>

theorem generateConversationTitle_counterexample:
  "generateConversationTitle (js '' hi'') = js ''hi'' \<and>
   specTitle (js '' hi'') = js '' hi'' \<and>
   generateConversationTitle (js '' hi'') \<noteq> specTitle (js '' hi'')"
  by (simp add: title_defs)

text \<open>
  Claim C7, amended. \<^verbatim>\<open>generateConversationTitle\<close> first removes leading and trailing
  white space, then replaces each newline with a space; a collapsed string of at most 50
  code units is the result, a longer one gives its first 47 code units followed by
  \<^verbatim>\<open>"..."\<close>. On an input without white space at its ends this is the stated
  transform; the result never has more than 50 code units; \<^verbatim>\<open>"Hello\nworld"\<close> gives
  \<^verbatim>\<open>"Hello world"\<close>.
\<close>

theorem generateConversationTitle_trimmed:
  "generateConversationTitle s = specTitle (trim s) \<and>
   (trim s = s \<longrightarrow> generateConversationTitle s = specTitle s) \<and>
   length (generateConversationTitle s) \<le> 50 \<and>
   generateConversationTitle (js ''Hello\<newline>world'') = js ''Hello world''"
proof -
  have eq: "generateConversationTitle s = specTitle (trim s)" for s
    by (simp add: generateConversationTitle_def specTitle_def substring_def Let_def)
  have "length (specTitle t) \<le> 50" for t
    by (simp add: specTitle_def Let_def js_def)
  then have len: "length (generateConversationTitle s) \<le> 50"
    by (simp only: eq)
  have ex: "generateConversationTitle (js ''Hello\<newline>world'') = js ''Hello world''"
    by (simp add: title_defs)
  have "trim s = s \<longrightarrow> generateConversationTitle s = specTitle s"
    by (simp add: eq)
  with eq len ex show ?thesis
    by blast
qed

theorem generateConversationTitle_trimmed_witness:
  "trim (js ''Hello\<newline>world'') = js ''Hello\<newline>world'' \<and>
   generateConversationTitle (js ''Hello\<newline>world'') = specTitle (js ''Hello\<newline>world'') \<and>
   specTitle (js ''Hello\<newline>world'') = js ''Hello world''"
proof -
  have fixed: "trim (js ''Hello\<newline>world'') = js ''Hello\<newline>world''"
    by (simp add: trim_def isWhiteSpace_def js_def)
  with generateConversationTitle_trimmed [of "js ''Hello\<newline>world''"]
  have "generateConversationTitle (js ''Hello\<newline>world'') = specTitle (js ''Hello\<newline>world'')"
    by blast
  moreover have "specTitle (js ''Hello\<newline>world'') = js ''Hello world''"
    by (simp add: specTitle_def replaceNewlines_def js_def)
  ultimately show ?thesis
    using fixed by blast
qed

section \<open>Saving a conversation\<close>

text \<open>
  Claim C8 says that after \<^verbatim>\<open>saveConversation(c)\<close> the stored conversation with the id
  of \<open>c\<close> has \<open>updatedAt\<close> refreshed to the save time, also when the id is new. Saved at
  time 2000 into an empty store, a new conversation created at time 1000 is stored with
  \<open>updatedAt = 1000\<close>: the branch for a new id pushes the conversation as it is. Saved again
  at time 3000, now with a known id, it gets \<open>updatedAt = 3000\<close>.
\<close>

theorem saveConversation_new_not_refreshed:
  "(case saveConversation 2000 conv_new storage_empty of
      Inr st \<Rightarrow> map updatedAt (getConversations st)
    | Inl e \<Rightarrow> []) = [1000] \<and>
   (case saveConversation 2000 conv_new storage_empty of
      Inr st \<Rightarrow>
        (case saveConversation 3000 conv_new st of
           Inr st' \<Rightarrow> map updatedAt (getConversations st')
         | Inl e \<Rightarrow> [])
    | Inl e \<Rightarrow> []) = [3000]"
  by (simp add: saveConversation_def getConversations_def storage_empty_def conv_new_def)

section \<open>The selected system prompt\<close>

text \<open>
  Claim C9 as stated returns the text of the prompt that the stored id resolves to. A custom
  prompt may have an empty text; the stored id \<^verbatim>\<open>mine\<close> resolves to such a prompt, and
  \<^verbatim>\<open>prompt?.prompt || DEFAULT_SYSTEM_PROMPTS[0].prompt\<close> returns the default text, not
  the empty one.
\<close>

theorem getSelectedSystemPrompt_counterexample:
  "string_items (storage_prefers (js ''mine'')) (selectedPromptKey (js ''openai'') (js ''gpt-4o''))
     = Resolved (Some (js ''mine'')) \<and>
   find (\<lambda>p. prompt_id p = js ''mine'') (getSystemPrompts (storage_prefers (js ''mine'')))
     = Some prompt_blank \<and>
   getSelectedSystemPrompt (js ''openai'') (js ''gpt-4o'') (storage_prefers (js ''mine''))
     \<noteq> prompt prompt_blank \<and>
   getSelectedSystemPrompt (js ''openai'') (js ''gpt-4o'') (storage_prefers (js ''mine''))
     \<noteq> specSelected (js ''openai'') (js ''gpt-4o'') (storage_prefers (js ''mine''))"
  by (simp add: prompt_defs)

text \<open>
  Claim C9, amended. \<^verbatim>\<open>getSelectedSystemPrompt\<close> returns the text of the first built-in
  prompt, the Default Assistant prompt, when no preference id is stored under the key of the
  pair and when the stored id resolves to no built-in or custom prompt; when the stored id
  is a non-empty string that resolves to a prompt with a non-empty text, it returns that
  text.
\<close>

theorem getSelectedSystemPrompt_fallback:
  "(string_items st (selectedPromptKey provider name) = Resolved None \<longrightarrow>
      getSelectedSystemPrompt provider name st = prompt (DEFAULT_SYSTEM_PROMPTS ! 0)) \<and>
   (string_items st (selectedPromptKey provider name) = Resolved (Some promptId) \<and>
    find (\<lambda>p. prompt_id p = promptId) (getSystemPrompts st) = None \<longrightarrow>
      getSelectedSystemPrompt provider name st = prompt (DEFAULT_SYSTEM_PROMPTS ! 0)) \<and>
   (string_items st (selectedPromptKey provider name) = Resolved (Some promptId) \<and>
    promptId \<noteq> [] \<and>
    find (\<lambda>p. prompt_id p = promptId) (getSystemPrompts st) = Some p \<and> prompt p \<noteq> [] \<longrightarrow>
      getSelectedSystemPrompt provider name st = prompt p) \<and>
   prompt_name (DEFAULT_SYSTEM_PROMPTS ! 0) = js ''Default Assistant'' \<and>
   prompt (DEFAULT_SYSTEM_PROMPTS ! 0) =
     js ''You are a helpful AI assistant. Be concise, accurate, and friendly in your responses.''"
  by (simp add: getSelectedSystemPrompt_def DEFAULT_SYSTEM_PROMPTS_def)

text \<open>
  No stored preference, a stored id that no prompt has, and a stored id of a custom prompt.
\<close>

theorem getSelectedSystemPrompt_fallback_witness:
  "getSelectedSystemPrompt (js ''openai'') (js ''gpt-4o'') storage_empty
     = js ''You are a helpful AI assistant. Be concise, accurate, and friendly in your responses.'' \<and>
   getSelectedSystemPrompt (js ''openai'') (js ''gpt-4o'') (storage_prefers (js ''gone''))
     = js ''You are a helpful AI assistant. Be concise, accurate, and friendly in your responses.'' \<and>
   getSelectedSystemPrompt (js ''openai'') (js ''gpt-4o'') (storage_prefers (js ''pirate''))
     = js ''Answer like a pirate.''"
proof -
  let ?key = "selectedPromptKey (js ''openai'') (js ''gpt-4o'')"
  have text0: "prompt (DEFAULT_SYSTEM_PROMPTS ! 0) =
      js ''You are a helpful AI assistant. Be concise, accurate, and friendly in your responses.''"
    by (simp add: DEFAULT_SYSTEM_PROMPTS_def)
  have none: "string_items storage_empty ?key = Resolved None"
    by (simp add: storage_empty_def)
  have gone: "string_items (storage_prefers (js ''gone'')) ?key = Resolved (Some (js ''gone'')) \<and>
      find (\<lambda>p. prompt_id p = js ''gone'') (getSystemPrompts (storage_prefers (js ''gone''))) = None"
    by (simp add: prompt_defs)
  have pirate:
    "string_items (storage_prefers (js ''pirate'')) ?key = Resolved (Some (js ''pirate'')) \<and>
     js ''pirate'' \<noteq> [] \<and>
     find (\<lambda>p. prompt_id p = js ''pirate'') (getSystemPrompts (storage_prefers (js ''pirate'')))
       = Some prompt_pirate \<and>
     prompt prompt_pirate \<noteq> []"
    by (simp add: prompt_defs)
  have text1: "prompt prompt_pirate = js ''Answer like a pirate.''"
    by (simp add: prompt_pirate_def)
  note a = getSelectedSystemPrompt_fallback
      [of storage_empty "js ''openai''" "js ''gpt-4o''", THEN conjunct1, THEN mp, OF none]
  note b = getSelectedSystemPrompt_fallback
      [of "storage_prefers (js ''gone'')" "js ''openai''" "js ''gpt-4o''" "js ''gone''",
        THEN conjunct2, THEN conjunct1, THEN mp, OF gone]
  note c = getSelectedSystemPrompt_fallback
      [of "storage_prefers (js ''pirate'')" "js ''openai''" "js ''gpt-4o''" "js ''pirate''"
        prompt_pirate, THEN conjunct2, THEN conjunct2, THEN conjunct1, THEN mp, OF pirate]
  show ?thesis
    by (simp only: a b c text0 text1)
qed

end
